theory Spec2Isabelle
  imports Main "HOL-Library.AList"
begin

section \<open>Values, errors and the library interface\<close>

text \<open>
  The program \<^verbatim>\<open>resampling.py\<close> has two functions, \<^verbatim>\<open>resampling\<close> and \<^verbatim>\<open>main\<close>.
  Both are glue around MNE-Python, mne-bids, pandas and the Brainlife helper package.
  The embedding keeps the control flow, the tests and the data plumbing of the two
  functions and takes every call into one of those packages as a field of a record of
  library functions, each of which may fail.

  Values read from \<^verbatim>\<open>config.json\<close> are JSON values. A JSON number with a fraction is
  carried around but never computed with, so it is kept as its literal.
\<close>

datatype pyval =
    PyNone
  | PyBool bool
  | PyInt int
  | PyFloat string
  | PyStr string
  | PyList "pyval list"
  | PyDict "(string \<times> pyval) list"

datatype error =
    KeyError string
  | ValueError string
  | TypeError string
  | AttributeError string
  | LibError string

text \<open>
  An insertion-ordered Python \<^verbatim>\<open>dict\<close> with string keys is an association list with
  distinct keys: \<^const>\<open>map_of\<close> reads, \<^const>\<open>AList.update\<close> assigns (in place for a key
  that is there, at the end for a new one), \<^const>\<open>AList.delete\<close> removes.
\<close>

type_synonym config = "(string \<times> pyval) list"

definition getitem :: "config \<Rightarrow> string \<Rightarrow> error + pyval" where
  "getitem d k = (case map_of d k of None \<Rightarrow> Inl (KeyError k) | Some v \<Rightarrow> Inr v)"

definition pop :: "config \<Rightarrow> string \<Rightarrow> error + (pyval \<times> config)" where
  "pop d k = (case map_of d k of None \<Rightarrow> Inl (KeyError k)
              | Some v \<Rightarrow> Inr (v, AList.delete k d))"

definition delitem :: "config \<Rightarrow> string \<Rightarrow> error + config" where
  "delitem d k = (case map_of d k of None \<Rightarrow> Inl (KeyError k)
                  | Some v \<Rightarrow> Inr (AList.delete k d))"

text \<open>\<^verbatim>\<open>x is False\<close> and \<^verbatim>\<open>x is True\<close> hold for the two \<^verbatim>\<open>bool\<close> singletons only.\<close>

definition is_False :: "pyval \<Rightarrow> bool" where
  "is_False v = (v = PyBool False)"

definition is_True :: "pyval \<Rightarrow> bool" where
  "is_True v = (v = PyBool True)"

section \<open>The events matrix\<close>

text \<open>
  A row of the events table read by \<^verbatim>\<open>pd.read_csv\<close> is the pair of its \<^verbatim>\<open>sample\<close> and
  \<^verbatim>\<open>value\<close> entries; the other columns are never read. Both columns are integer columns,
  which pandas holds as 64-bit signed integers, and \<^verbatim>\<open>data.first_samp\<close> is a 64-bit
  signed integer too. The events matrix is the numpy array of shape \<open>(n_events, 3)\<close>: a
  list of triples. The numbers are kept as integers, with the range of the machine type
  and the wrap-around of its addition written out.
\<close>

type_synonym event_row = "int \<times> int"
type_synonym dataframe = "event_row list"
type_synonym event_triplet = "int \<times> int \<times> int"
type_synonym event_matrix = "event_triplet list"

definition in_int64 :: "int \<Rightarrow> bool" where
  "in_int64 x = (- (2 ^ 63) \<le> x \<and> x < 2 ^ 63)"

text \<open>The 64-bit signed integer that a sum of two of them wraps to.\<close>

definition int64 :: "int \<Rightarrow> int" where
  "int64 x = (x + 2 ^ 63) mod 2 ^ 64 - 2 ^ 63"

definition column_sample :: "dataframe \<Rightarrow> int list" where
  "column_sample df = map fst df"

definition column_value :: "dataframe \<Rightarrow> int list" where
  "column_value df = map snd df"

text \<open>
  \<^verbatim>\<open>pd.DataFrame([a, b, c]).transpose().to_numpy()\<close>: the three lists are the rows of the
  frame, and its transpose has one row per position. The three lists built in \<^verbatim>\<open>main\<close>
  always have the same length, where this is the zip of the three.
\<close>

definition transpose3 :: "int list \<Rightarrow> int list \<Rightarrow> int list \<Rightarrow> event_matrix" where
  "transpose3 a b c = zip a (zip b c)"

text \<open>
  Lines 140 to 152 of \<^verbatim>\<open>main\<close>, with \<^verbatim>\<open>data.first_samp\<close> as \<open>first_samp\<close>. The sum at
  line 144 is a sum of \<^verbatim>\<open>numpy.int64\<close> scalars: beyond the range it wraps around.
\<close>

definition compute_events_matrix :: "int \<Rightarrow> dataframe \<Rightarrow> event_matrix" where
  "compute_events_matrix first_samp df_events =
     (let samples = column_sample df_events;
          event_id = column_value df_events;
          events_time_in_sample = map (\<lambda>sample. int64 (first_samp + sample)) samples;
          values_of_trigger_channels = replicate (length events_time_in_sample) 0
      in transpose3 events_time_in_sample values_of_trigger_channels event_id)"

section \<open>Library calls and the trace\<close>

text \<open>
  \<^verbatim>\<open>data.resample(...)\<close> is called in three places, with two sets of keyword arguments:
  on continuous data with \<^verbatim>\<open>stim_picks\<close> and \<^verbatim>\<open>events\<close>, on epochs without them.
\<close>

datatype resample_kwargs =
    RawKwargs (kw_sfreq: pyval) (kw_npad: pyval) (kw_window: pyval) (kw_stim_picks: pyval)
      (kw_n_jobs: pyval) (kw_events: "event_matrix option") (kw_pad: pyval)
  | EpochsKwargs (kw_sfreq: pyval) (kw_npad: pyval) (kw_window: pyval) (kw_n_jobs: pyval)
      (kw_pad: pyval)

text \<open>
  What \<^verbatim>\<open>data.resample\<close> hands back is either the instance alone or the tuple of the
  instance and a resampled events array; the caller finds out which when it unpacks the
  result or calls a method on it.
\<close>

datatype 'd resample_result = Instance 'd | WithEvents 'd event_matrix

type_synonym trial_types = "(string \<times> int) list"

datatype message = Text string | ResampledAt pyval

type_synonym product = "(string \<times> message) list"

datatype 'd effect =
    Warn message
  | ResampleCall 'd resample_kwargs
  | SaveFif 'd string
  | WriteRawBids 'd config event_matrix trial_types
  | Copy2 string string
  | JsonDump string product

text \<open>
  The world a run acts on: the trace of the calls made so far that compute on the signal
  or write something, and the content of the numpy array bound to \<^verbatim>\<open>events_matrix\<close>
  in \<^verbatim>\<open>main\<close> (\<open>None\<close> when the variable holds \<^verbatim>\<open>None\<close>). The array is the one
  object of the program that is shared between \<^verbatim>\<open>main\<close>, \<^verbatim>\<open>resampling\<close> and the
  library, which could write into it.
\<close>

record 'd world =
  trace :: "'d effect list"
  caller_events :: "event_matrix option"

text \<open>
  The functions of MNE-Python, mne-bids, pandas, \<^verbatim>\<open>shutil\<close>, \<^verbatim>\<open>json\<close>, the Brainlife
  helper and the builtin \<^verbatim>\<open>int\<close> that the program calls. \<open>'d\<close> is the type of a loaded
  recording (\<^verbatim>\<open>mne.io.Raw\<close> or \<^verbatim>\<open>mne.Epochs\<close>).
  \<^item> \<open>read_optional_files\<close> returns the seven values unpacked at line 109.
  \<^item> \<open>define_kwargs\<close> returns the keyword dictionary and what the dictionary it was given
    holds after the call.
  \<^item> \<open>resample\<close> returns its outcome and what the array passed as \<^verbatim>\<open>events\<close> holds after
    the call (read only when an array was passed).
\<close>

record 'd lib =
  read_raw_fif :: "pyval \<Rightarrow> error + 'd"
  read_epochs :: "pyval \<Rightarrow> error + 'd"
  read_optional_files :: "config \<Rightarrow> string \<Rightarrow>
     error + (config \<times> string option \<times> string option \<times> string option
               \<times> string option \<times> string option \<times> pyval)"
  convert_parameters_to_None :: "config \<Rightarrow> error + config"
  update_data_info_bads :: "'d \<Rightarrow> string \<Rightarrow> error + ('d \<times> string option)"
  read_csv :: "string \<Rightarrow> error + dataframe"
  first_samp :: "'d \<Rightarrow> int"
  pick :: "'d \<Rightarrow> pyval \<Rightarrow> error + 'd"
  define_kwargs :: "config \<Rightarrow> error + (config \<times> config)"
  copy :: "'d \<Rightarrow> 'd"
  load_data :: "'d \<Rightarrow> error + 'd"
  resample :: "'d \<Rightarrow> resample_kwargs \<Rightarrow> (error + 'd resample_result) \<times> event_matrix option"
  py_int :: "pyval \<Rightarrow> error + int"
  save :: "'d \<Rightarrow> string \<Rightarrow> error + unit"
  write_raw_bids :: "'d \<Rightarrow> config \<Rightarrow> event_matrix \<Rightarrow> trial_types \<Rightarrow> error + unit"
  copy2 :: "string \<Rightarrow> string \<Rightarrow> error + unit"
  json_dump :: "string \<Rightarrow> product \<Rightarrow> error + unit"

text \<open>
  A step of the program takes the world and returns an error or a value, and the world
  it leaves. An exception ends the run of every enclosing step.
\<close>

type_synonym ('a, 'd) step = "'d world \<Rightarrow> (error + 'a) \<times> 'd world"

definition returns :: "'a \<Rightarrow> ('a, 'd) step" where
  "returns a w = (Inr a, w)"

definition raises :: "error \<Rightarrow> ('a, 'd) step" where
  "raises e w = (Inl e, w)"

definition from_lib :: "error + 'a \<Rightarrow> ('a, 'd) step" where
  "from_lib r w = (r, w)"

definition and_then :: "('a, 'd) step \<Rightarrow> ('a \<Rightarrow> ('b, 'd) step) \<Rightarrow> ('b, 'd) step" where
  "and_then m f w = (case m w of (Inl e, w') \<Rightarrow> (Inl e, w') | (Inr a, w') \<Rightarrow> f a w')"

definition logs :: "'d effect \<Rightarrow> (unit, 'd) step" where
  "logs eff w = (Inr (), w\<lparr>trace := trace w @ [eff]\<rparr>)"

text \<open>A writing call of the library: on success it is on the trace.\<close>

definition performs :: "error + unit \<Rightarrow> 'd effect \<Rightarrow> (unit, 'd) step" where
  "performs r eff w = (case r of Inl e \<Rightarrow> (Inl e, w)
                       | Inr u \<Rightarrow> (Inr (), w\<lparr>trace := trace w @ [eff]\<rparr>))"

text \<open>
  \<^verbatim>\<open>data.resample(**kwargs)\<close>: the call is on the trace whether or not it succeeds, and
  when an events array was passed the world holds what the library left in it.
\<close>

definition call_resample :: "'d lib \<Rightarrow> 'd \<Rightarrow> resample_kwargs \<Rightarrow> ('d resample_result, 'd) step" where
  "call_resample l data kwargs w =
     (let w1 = w\<lparr>trace := trace w @ [ResampleCall data kwargs]\<rparr>;
          (r, events_after) = resample l data kwargs;
          passed = (case kwargs of RawKwargs a b c d e ev f \<Rightarrow> ev | EpochsKwargs a b c d e \<Rightarrow> None)
      in (r, case passed of None \<Rightarrow> w1 | Some ev \<Rightarrow> w1\<lparr>caller_events := events_after\<rparr>))"

section \<open>The function \<^verbatim>\<open>resampling\<close>\<close>

text \<open>
  Lines 15 to 89. In the first branch the result of \<^verbatim>\<open>data.resample\<close> is unpacked into
  two names, which fails on a result that is not a pair; in the other two it is bound to
  \<^verbatim>\<open>data_resampled\<close> as it is, and \<^verbatim>\<open>events_resampled\<close> is set to \<^verbatim>\<open>None\<close>. The call
  of \<^verbatim>\<open>save\<close> at line 87 needs an instance; \<open>save_resampled\<close> is lines 87 to 89.
\<close>

definition save_resampled ::
  "'d lib \<Rightarrow> 'd resample_result \<Rightarrow> event_matrix option
     \<Rightarrow> ('d \<times> event_matrix option, 'd) step" where
  "save_resampled l data_resampled events_resampled =
     (case data_resampled of
        Instance d \<Rightarrow>
          and_then (performs (save l d ''out_dir_resampling/meg.fif'')
                      (SaveFif d ''out_dir_resampling/meg.fif''))
            (\<lambda>u. returns (d, events_resampled))
      | WithEvents d ev \<Rightarrow>
          raises (AttributeError ''tuple object has no attribute save''))"

definition resampling ::
  "'d lib \<Rightarrow> 'd \<Rightarrow> event_matrix option \<Rightarrow> pyval \<Rightarrow> pyval \<Rightarrow> pyval \<Rightarrow> pyval \<Rightarrow> pyval \<Rightarrow> pyval
     \<Rightarrow> pyval \<Rightarrow> pyval \<Rightarrow> pyval \<Rightarrow> ('d \<times> event_matrix option, 'd) step" where
  "resampling l data events_matrix param_epoched_data param_sfreq param_npad param_window
       param_stim_picks param_n_jobs param_raw_pad param_epoch_pad
       param_save_jointly_resampled_events =
     and_then
       (if is_False param_epoched_data then
          and_then (from_lib (load_data l data)) (\<lambda>data.
            if events_matrix \<noteq> None \<and> is_True param_save_jointly_resampled_events then
              and_then
                (call_resample l data
                   (RawKwargs param_sfreq param_npad param_window param_stim_picks
                      param_n_jobs events_matrix param_raw_pad))
                (\<lambda>r. case r of
                        WithEvents data_resampled events_resampled \<Rightarrow>
                          returns (Instance data_resampled, Some events_resampled)
                      | Instance d \<Rightarrow>
                          raises (TypeError ''cannot unpack non-iterable object''))
            else
              and_then
                (call_resample l data
                   (RawKwargs param_sfreq param_npad param_window param_stim_picks
                      param_n_jobs None param_raw_pad))
                (\<lambda>data_resampled. returns (data_resampled, None)))
        else
          and_then
            (call_resample l data
               (EpochsKwargs param_sfreq param_npad param_window param_n_jobs param_epoch_pad))
            (\<lambda>data_resampled. returns (data_resampled, None)))
       (\<lambda>(data_resampled, events_resampled).
          save_resampled l data_resampled events_resampled)"

section \<open>Builtins used by \<^verbatim>\<open>main\<close>\<close>

text \<open>The decimal numeral of a natural number, as \<^verbatim>\<open>f"{i}"\<close> prints it.\<close>

definition digit_char :: "nat \<Rightarrow> char" where
  "digit_char n = ''0123456789'' ! n"

function str_nat :: "nat \<Rightarrow> string" where
  "str_nat n = (if n < 10 then [digit_char n]
                else str_nat (n div 10) @ [digit_char (n mod 10)])"
  by pat_completeness auto
termination
  by (relation "measure (\<lambda>n. n)") auto

text \<open>
  \<^verbatim>\<open>s.replace(c, '')\<close> for a single character \<open>c\<close>, and \<^verbatim>\<open>s.split(', ')\<close>: the pieces
  between the occurrences of the separator, read from the left.
\<close>

definition remove_char :: "char \<Rightarrow> string \<Rightarrow> string" where
  "remove_char c s = filter (\<lambda>x. x \<noteq> c) s"

fun split_comma_space :: "string \<Rightarrow> string list" where
  "split_comma_space [] = [[]]"
| "split_comma_space [c] = [[c]]"
| "split_comma_space (c # d # cs) =
     (if c = CHR '','' \<and> d = CHR '' '' then [] # split_comma_space cs
      else (case split_comma_space (d # cs) of
              [] \<Rightarrow> [[c]]
            | piece # pieces \<Rightarrow> (c # piece) # pieces))"

text \<open>\<^verbatim>\<open>list(map(int, pieces))\<close>: the first piece that \<^verbatim>\<open>int\<close> rejects raises.\<close>

fun map_int :: "'d lib \<Rightarrow> string list \<Rightarrow> error + int list" where
  "map_int l [] = Inr []"
| "map_int l (piece # pieces) =
     (case py_int l (PyStr piece) of
        Inl e \<Rightarrow> Inl e
      | Inr n \<Rightarrow> (case map_int l pieces of Inl e \<Rightarrow> Inl e | Inr ns \<Rightarrow> Inr (n # ns)))"

text \<open>
  \<^verbatim>\<open>collections.Counter(xs)\<close> is a dictionary filled by one pass over \<open>xs\<close>: each element
  has its count raised by one, and an element seen for the first time is entered at the
  end. \<^verbatim>\<open>dict(pairs)\<close> assigns the pairs one after the other.
\<close>

definition Counter :: "int list \<Rightarrow> (int \<times> nat) list" where
  "Counter xs =
     fold (\<lambda>x c. AList.update x (case map_of c x of None \<Rightarrow> 1 | Some n \<Rightarrow> n + 1) c) xs []"

definition dict_of_pairs :: "('k \<times> 'v) list \<Rightarrow> ('k \<times> 'v) list" where
  "dict_of_pairs ps = fold (\<lambda>(k, v) d. AList.update k v d) ps []"

section \<open>The trial types written with the events\<close>

text \<open>Lines 232 to 236 of \<^verbatim>\<open>main\<close>; \<^verbatim>\<open>events_resampled[:, 2]\<close> is the third column.\<close>

definition event_label :: "nat \<Rightarrow> string" where
  "event_label i = ''events_'' @ str_nat i"

definition trial_type_map :: "event_matrix \<Rightarrow> trial_types" where
  "trial_type_map events_resampled =
     (let event_id_value = map (\<lambda>(s, z, v). v) events_resampled;
          id_values_occurrences = map fst (Counter event_id_value);
          trials_type = map event_label [1 ..< length id_values_occurrences + 1]
      in dict_of_pairs (zip trials_type id_values_occurrences))"

text \<open>
  The assignment as the specification words it: the values are scanned in order, and a
  value not met before is given the next label, \<^verbatim>\<open>events_1\<close> for the first. This one
  maps a value to its label.
\<close>

fun scan_labels :: "int list \<Rightarrow> (int \<times> string) list \<Rightarrow> (int \<times> string) list" where
  "scan_labels [] seen = seen"
| "scan_labels (v # vs) seen =
     (if v \<in> set (map fst seen) then scan_labels vs seen
      else scan_labels vs (seen @ [(v, event_label (length seen + 1))]))"

definition first_seen_labels :: "int list \<Rightarrow> (int \<times> string) list" where
  "first_seen_labels vs = scan_labels vs []"

text \<open>The distinct values of a list in the order in which they first occur.\<close>

fun scan_keys :: "int list \<Rightarrow> int list \<Rightarrow> int list" where
  "scan_keys [] ks = ks"
| "scan_keys (v # vs) ks = (if v \<in> set ks then scan_keys vs ks else scan_keys vs (ks @ [v]))"

definition labelled :: "int list \<Rightarrow> (int \<times> string) list" where
  "labelled ks = zip ks (map event_label [1 ..< length ks + 1])"

section \<open>The function \<^verbatim>\<open>main\<close>\<close>

text \<open>
  The run starts from the dictionary that \<^verbatim>\<open>json.load\<close> returns for \<^verbatim>\<open>config.json\<close>.
  \<^verbatim>\<open>main\<close> is cut into its paragraphs, each a step over the local variables that the
  later paragraphs read.
\<close>

definition channels_warning :: message where
  "channels_warning = Text (''The channels file provided must be BIDS compliant and the column ''
     @ [CHR 0x22] @ ''status'' @ [CHR 0x22] @ '' must be present. '')"

definition events_warning :: message where
  "events_warning = Text ''The events file provided must be BIDS compliant.''"

definition value_error_message :: string where
  "value_error_message = ''You cannot save en empty events file. If you haven't an events file, please set 'param_save_jointly_resampled_event' to False.''"

text \<open>Lines 95 to 124: the configuration, the recording, the optional files.\<close>

definition read_inputs ::
  "'d lib \<Rightarrow> config \<Rightarrow> (config \<times> 'd \<times> string option \<times> product, 'd) step" where
  "read_inputs l config =
     and_then (from_lib (pop config ''fif'')) (\<lambda>(data_file, config).
     and_then (from_lib (getitem config ''param_epoched_data'')) (\<lambda>epoched.
     and_then (from_lib (if is_False epoched then read_raw_fif l data_file
                         else read_epochs l data_file)) (\<lambda>data.
     and_then (from_lib (read_optional_files l config ''out_dir_resampling''))
       (\<lambda>(config, cross_talk_file, calibration_file, events_file, head_pos_file,
           channels_file, destination).
     and_then (from_lib (convert_parameters_to_None l config)) (\<lambda>config.
       case channels_file of
         None \<Rightarrow> returns (config, data, events_file, [])
       | Some cf \<Rightarrow>
           and_then (logs (Warn channels_warning)) (\<lambda>u.
           and_then (from_lib (update_data_info_bads l data cf)) (\<lambda>(data, msg).
             case msg of
               None \<Rightarrow> returns (config, data, events_file, [(''warning'', channels_warning)])
             | Some m \<Rightarrow>
                 and_then (logs (Warn (Text m))) (\<lambda>u.
                   returns (config, data, events_file,
                            [(''warning'', channels_warning), (''warning'', Text m)])))))))))"

text \<open>
  Lines 127 to 156: the events matrix, for continuous data with an events file. The
  array made at line 152 is from then on the content of \<open>caller_events\<close>.
\<close>

definition binds_events :: "event_matrix option \<Rightarrow> (event_matrix option, 'd) step" where
  "binds_events m w = (Inr m, w\<lparr>caller_events := m\<rparr>)"

definition extract_events ::
  "'d lib \<Rightarrow> config \<Rightarrow> 'd \<Rightarrow> string option \<Rightarrow> product
     \<Rightarrow> (event_matrix option \<times> product, 'd) step" where
  "extract_events l config data events_file dict_json_product =
     and_then (from_lib (getitem config ''param_epoched_data'')) (\<lambda>epoched.
       if is_False epoched then
         (case events_file of
            Some f \<Rightarrow>
              and_then (logs (Warn events_warning)) (\<lambda>u.
              and_then (from_lib (read_csv l f)) (\<lambda>df_events.
              and_then (binds_events (Some (compute_events_matrix (first_samp l data) df_events)))
                (\<lambda>events_matrix.
                   returns (events_matrix,
                            dict_json_product @ [(''warning'', events_warning)]))))
          | None \<Rightarrow>
              and_then (binds_events None) (\<lambda>events_matrix.
                returns (events_matrix, dict_json_product)))
       else
         and_then (binds_events None) (\<lambda>events_matrix.
           returns (events_matrix, dict_json_product)))"

text \<open>
  Lines 159 to 177: the message about the new rate, and the test that stops a run which
  asks for the events to be saved and names no events file. The second operand of the
  \<^verbatim>\<open>and\<close> at line 172 is read only when there is no events file.
\<close>

definition check_events_file ::
  "config \<Rightarrow> string option \<Rightarrow> product \<Rightarrow> (product, 'd) step" where
  "check_events_file config events_file dict_json_product =
     and_then (from_lib (getitem config ''param_epoched_data'')) (\<lambda>epoched.
     and_then
       (if is_False epoched then
          and_then (from_lib (getitem config ''param_sfreq'')) (\<lambda>sfreq.
            returns (dict_json_product @ [(''info'', ResampledAt sfreq)]))
        else returns dict_json_product) (\<lambda>dict_json_product.
     and_then (from_lib (getitem config ''param_sfreq'')) (\<lambda>comments_resample_freq.
       case events_file of
         None \<Rightarrow>
           and_then (from_lib (getitem config ''param_save_jointly_resampled_events''))
             (\<lambda>save_events.
                if is_True save_events then raises (ValueError value_error_message)
                else returns dict_json_product)
       | Some f \<Rightarrow> returns dict_json_product)))"

text \<open>
  Lines 180 to 197: \<^verbatim>\<open>param_npad\<close> and \<^verbatim>\<open>param_n_jobs\<close> go through \<^verbatim>\<open>int\<close> unless
  they are the strings \<^verbatim>\<open>"auto"\<close> and \<^verbatim>\<open>'cuda'\<close>; \<^verbatim>\<open>param_stim_picks\<close>, when a
  string, is parsed into a list of integers.
\<close>

definition convert_int_unless :: "'d lib \<Rightarrow> string \<Rightarrow> string \<Rightarrow> config \<Rightarrow> (config, 'd) step" where
  "convert_int_unless l key sentinel config =
     and_then (from_lib (getitem config key)) (\<lambda>v.
       if v \<noteq> PyStr sentinel then
         and_then (from_lib (py_int l v)) (\<lambda>n. returns (AList.update key (PyInt n) config))
       else returns config)"

definition convert_stim_picks :: "'d lib \<Rightarrow> config \<Rightarrow> (config, 'd) step" where
  "convert_stim_picks l config =
     and_then (from_lib (getitem config ''param_stim_picks'')) (\<lambda>v.
       case v of
         PyStr s \<Rightarrow>
           and_then
             (from_lib (map_int l
                (split_comma_space (remove_char CHR '']'' (remove_char CHR ''['' s)))))
             (\<lambda>ns. returns (AList.update ''param_stim_picks'' (PyList (map PyInt ns)) config))
       | PyNone \<Rightarrow> returns config
       | PyBool b \<Rightarrow> returns config
       | PyInt n \<Rightarrow> returns config
       | PyFloat x \<Rightarrow> returns config
       | PyList vs \<Rightarrow> returns config
       | PyDict kvs \<Rightarrow> returns config)"

definition convert_parameters :: "'d lib \<Rightarrow> config \<Rightarrow> (config, 'd) step" where
  "convert_parameters l config =
     and_then (convert_int_unless l ''param_npad'' ''auto'' config) (\<lambda>config.
     and_then (convert_int_unless l ''param_n_jobs'' ''cuda'' config) (\<lambda>config.
       convert_stim_picks l config))"

text \<open>
  The call \<^verbatim>\<open>resampling(data_copy, events_matrix, **kwargs)\<close> at line 212 binds the nine
  remaining parameters by name: a name that is missing or one that is not a parameter is
  a \<^verbatim>\<open>TypeError\<close>.
\<close>

definition resampling_parameters :: "string list" where
  "resampling_parameters =
     [''param_epoched_data'', ''param_sfreq'', ''param_npad'', ''param_window'',
      ''param_stim_picks'', ''param_n_jobs'', ''param_raw_pad'', ''param_epoch_pad'',
      ''param_save_jointly_resampled_events'']"

definition call_resampling ::
  "'d lib \<Rightarrow> 'd \<Rightarrow> event_matrix option \<Rightarrow> config \<Rightarrow> ('d \<times> event_matrix option, 'd) step" where
  "call_resampling l data events_matrix kwargs =
     (if set (map fst kwargs) = set resampling_parameters then
        (case (map_of kwargs ''param_epoched_data'', map_of kwargs ''param_sfreq'',
               map_of kwargs ''param_npad'', map_of kwargs ''param_window'',
               map_of kwargs ''param_stim_picks'', map_of kwargs ''param_n_jobs'',
               map_of kwargs ''param_raw_pad'', map_of kwargs ''param_epoch_pad'',
               map_of kwargs ''param_save_jointly_resampled_events'') of
           (Some param_epoched_data, Some param_sfreq, Some param_npad, Some param_window,
            Some param_stim_picks, Some param_n_jobs, Some param_raw_pad, Some param_epoch_pad,
            Some param_save_jointly_resampled_events) \<Rightarrow>
             resampling l data events_matrix param_epoched_data param_sfreq param_npad
               param_window param_stim_picks param_n_jobs param_raw_pad param_epoch_pad
               param_save_jointly_resampled_events
         | other \<Rightarrow> raises (TypeError ''resampling() missing required argument''))
      else raises (TypeError ''resampling() got wrong keyword arguments''))"

text \<open>
  Lines 199 to 213. \<^verbatim>\<open>bad_channels\<close> is read and never used. \<^verbatim>\<open>config\<close> is the
  dictionary that \<^verbatim>\<open>define_kwargs\<close> was given, as the helper left it.
\<close>

definition apply_resampling ::
  "'d lib \<Rightarrow> config \<Rightarrow> 'd \<Rightarrow> event_matrix option
     \<Rightarrow> (config \<times> 'd \<times> 'd \<times> event_matrix option, 'd) step" where
  "apply_resampling l config data events_matrix =
     and_then (from_lib (getitem config ''param_pick_type'')) (\<lambda>pick_type.
     and_then (from_lib (pick l data pick_type)) (\<lambda>data.
     and_then (from_lib (delitem config ''param_pick_type'')) (\<lambda>config.
     and_then (from_lib (define_kwargs l config)) (\<lambda>(kwargs, config).
     and_then (call_resampling l (copy l data) events_matrix kwargs)
       (\<lambda>(data_resampled, events_resampled).
          returns (config, data, data_resampled, events_resampled))))))"

text \<open>
  Lines 215 to 249: the events file is written when \<^verbatim>\<open>resampling\<close> returned an events
  array and the data is continuous; otherwise nothing is done. The second operand of
  the \<^verbatim>\<open>and\<close> at line 216 is read only when there is an array.
\<close>

definition bids_path :: config where
  "bids_path =
     [(''subject'', PyStr ''subject''), (''session'', PyNone), (''task'', PyStr ''task''),
      (''run'', PyStr ''01''), (''acquisition'', PyNone), (''processing'', PyNone),
      (''recording'', PyNone), (''space'', PyNone), (''suffix'', PyNone),
      (''datatype'', PyStr ''meg''), (''root'', PyStr ''bids'')]"

definition bids_events_file :: string where
  "bids_events_file = ''bids/sub-subject/meg/sub-subject_task-task_run-01_events.tsv''"

definition write_events ::
  "'d lib \<Rightarrow> config \<Rightarrow> 'd \<Rightarrow> event_matrix option \<Rightarrow> product \<Rightarrow> (product, 'd) step" where
  "write_events l config data events_resampled dict_json_product =
     (case events_resampled of
        None \<Rightarrow> returns dict_json_product
      | Some events \<Rightarrow>
          and_then (from_lib (getitem config ''param_epoched_data'')) (\<lambda>epoched.
            if is_False epoched then
              and_then
                (performs (write_raw_bids l data bids_path events (trial_type_map events))
                   (WriteRawBids data bids_path events (trial_type_map events))) (\<lambda>u.
              and_then
                (performs (copy2 l bids_events_file ''out_dir_resampling/events.tsv'')
                   (Copy2 bids_events_file ''out_dir_resampling/events.tsv'')) (\<lambda>u.
                returns (dict_json_product
                   @ [(''info'', Text ''Jointly resampled events are saved in events.tsv.'')])))
            else returns dict_json_product))"

text \<open>Lines 252 to 258, and the whole of \<^verbatim>\<open>main\<close>.\<close>

definition write_product :: "'d lib \<Rightarrow> product \<Rightarrow> (unit, 'd) step" where
  "write_product l dict_json_product =
     (let final = dict_json_product @ [(''success'', Text ''Data was successfully resampled.'')]
      in performs (json_dump l ''product.json'' final) (JsonDump ''product.json'' final))"

definition main :: "'d lib \<Rightarrow> config \<Rightarrow> (unit, 'd) step" where
  "main l config =
     and_then (read_inputs l config) (\<lambda>(config, data, events_file, dict_json_product).
     and_then (extract_events l config data events_file dict_json_product)
       (\<lambda>(events_matrix, dict_json_product).
     and_then (check_events_file config events_file dict_json_product) (\<lambda>dict_json_product.
     and_then (convert_parameters l config) (\<lambda>config.
     and_then (apply_resampling l config data events_matrix)
       (\<lambda>(config, data, data_resampled, events_resampled).
     and_then (write_events l config data events_resampled dict_json_product)
       (\<lambda>dict_json_product.
          write_product l dict_json_product))))))"

section \<open>A small library for running examples\<close>

text \<open>
  An instance of the library interface on which the program can be run by evaluation.
  A recording is its sampling rate and its first sample; resampling sets the rate and
  halves the sample index of each event; the optional events file is the entry
  \<^verbatim>\<open>events\<close> of the configuration; the events table has two rows.
\<close>

datatype recording = Recording (rate: pyval) (first: int)

definition example_lib :: "recording lib" where
  "example_lib =
     \<lparr> read_raw_fif = (\<lambda>f. Inr (Recording (PyInt 1000) 0)),
       read_epochs = (\<lambda>f. Inr (Recording (PyInt 1000) 0)),
       read_optional_files = (\<lambda>c dest.
          Inr (AList.delete ''events'' c, None, None,
               (case map_of c ''events'' of Some (PyStr f) \<Rightarrow> Some f | other \<Rightarrow> None),
               None, None, PyStr dest)),
       convert_parameters_to_None = (\<lambda>c. Inr c),
       update_data_info_bads = (\<lambda>d f. Inr (d, None)),
       read_csv = (\<lambda>f. Inr [(10, 1), (50, 2)]),
       first_samp = first,
       pick = (\<lambda>d p. Inr d),
       define_kwargs = (\<lambda>c. Inr (c, c)),
       copy = (\<lambda>d. d),
       load_data = (\<lambda>d. Inr d),
       resample = (\<lambda>d kw.
          case kw of
            RawKwargs sf np wi st nj ev pd \<Rightarrow>
              (case ev of
                 None \<Rightarrow> (Inr (Instance (Recording sf (first d))), None)
               | Some m \<Rightarrow>
                   (Inr (WithEvents (Recording sf (first d))
                           (map (\<lambda>(s, z, v). (s div 2, z, v)) m)), Some m))
          | EpochsKwargs sf np wi nj pd \<Rightarrow> (Inr (Instance (Recording sf (first d))), None)),
       py_int = (\<lambda>v. case v of PyInt n \<Rightarrow> Inr n
                              | other \<Rightarrow> Inl (ValueError ''invalid literal for int()'')),
       save = (\<lambda>d f. Inr ()),
       write_raw_bids = (\<lambda>d b ev ids. Inr ()),
       copy2 = (\<lambda>a b. Inr ()),
       json_dump = (\<lambda>f p. Inr ()) \<rparr>"

definition example_config :: "pyval \<Rightarrow> pyval \<Rightarrow> config \<Rightarrow> config" where
  "example_config epoched save_events extra =
     [(''fif'', PyStr ''meg.fif''), (''param_epoched_data'', epoched),
      (''param_sfreq'', PyInt 500), (''param_npad'', PyStr ''auto''),
      (''param_window'', PyStr ''boxcar''), (''param_stim_picks'', PyNone),
      (''param_n_jobs'', PyInt 1), (''param_raw_pad'', PyStr ''reflect_limited''),
      (''param_epoch_pad'', PyStr ''edge''),
      (''param_save_jointly_resampled_events'', save_events),
      (''param_pick_type'', PyStr ''meg'')] @ extra"

definition start :: "recording world" where
  "start = \<lparr> trace = [], caller_events = None \<rparr>"

section \<open>Ingest\<close>

lemma zip_replicate_map:
  "zip (map f xs) (zip (replicate (length xs) z) (map g xs)) = map (\<lambda>x. (f x, z, g x)) xs"
  by (induction xs) simp_all

lemma int64_in_range: "in_int64 x \<Longrightarrow> int64 x = x"
  by (simp add: in_int64_def int64_def)

lemma in_int64_int64: "in_int64 (int64 x)"
proof -
  have "0 \<le> (x + 2 ^ 63) mod (2 ^ 64 :: int)" and "(x + 2 ^ 63) mod (2 ^ 64 :: int) < 2 ^ 64"
    by simp_all
  then show ?thesis by (simp add: in_int64_def int64_def)
qed

lemma compute_events_matrix_map:
  "compute_events_matrix fs df = map (\<lambda>r. (int64 (fs + fst r), 0, snd r)) df"
  using zip_replicate_map [of "\<lambda>r. int64 (fs + fst r)" df 0 snd]
  by (simp add: compute_events_matrix_def column_sample_def column_value_def
      transpose3_def Let_def comp_def)

lemma length_compute_events_matrix:
  "length (compute_events_matrix fs df) = length df"
  by (simp add: compute_events_matrix_map)

lemma compute_events_matrix_exact:
  assumes "\<forall>r\<in>set df. in_int64 (fs + fst r)"
  shows "compute_events_matrix fs df = map (\<lambda>(sample_offset, v). (fs + sample_offset, 0, v)) df"
proof -
  have "map (\<lambda>r. (int64 (fs + fst r), 0::int, snd r)) df
          = map (\<lambda>(sample_offset, v). (fs + sample_offset, 0, v)) df"
    using assms by (auto simp add: int64_in_range)
  then show ?thesis by (simp add: compute_events_matrix_map)
qed

lemma extract_events_with_file:
  assumes "map_of config ''param_epoched_data'' = Some (PyBool False)"
    and "read_csv l f = Inr df_events"
  shows "extract_events l config data (Some f) dict_json_product w
           = (Inr (Some (compute_events_matrix (first_samp l data) df_events),
                   dict_json_product @ [(''warning'', events_warning)]),
              w\<lparr>trace := trace w @ [Warn events_warning],
                caller_events := Some (compute_events_matrix (first_samp l data) df_events)\<rparr>)"
  using assms
  by (simp add: extract_events_def and_then_def from_lib_def getitem_def is_False_def logs_def
      binds_events_def returns_def)

text \<open>
  Claim C2 as it is stated does not hold of the program at the edge of the machine
  range: with a first sample of 100 and a row whose sample offset is the largest 64-bit
  signed integer, the first entry of the triplet is the wrapped sum and not the sum.
\<close>

theorem ingest_overflow_counterexample:
  "compute_events_matrix 100 [(9223372036854775807, 1)] = [(- 9223372036854775709, 0, 1)]
   \<and> compute_events_matrix 100 [(9223372036854775807, 1)] ! 0
       \<noteq> (100 + 9223372036854775807, 0, 1)"
  by (simp add: compute_events_matrix_map int64_def)

text \<open>
  Claim C2, as the program has it. For a first sample and an events table of 64-bit
  signed integers, the events matrix has one triplet per row of the table, in the
  table's order: the triplet at position \<open>i\<close> is the 64-bit sum of \<open>fs\<close> and the row's
  sample offset, then 0, then the row's value, unchanged. Nothing is dropped, merged or
  moved. Whenever the sums lie in the 64-bit range, the first entries are the sums
  themselves.
\<close>

theorem ingest_triplets_int64:
  assumes "in_int64 fs"
    and "\<forall>r\<in>set df. in_int64 (fst r) \<and> in_int64 (snd r)"
  shows "length (compute_events_matrix fs df) = length df
   \<and> (\<forall>i. i < length df \<longrightarrow>
         compute_events_matrix fs df ! i = (int64 (fs + fst (df ! i)), 0, snd (df ! i)))
   \<and> ((\<forall>r\<in>set df. in_int64 (fs + fst r)) \<longrightarrow>
         compute_events_matrix fs df
           = map (\<lambda>(sample_offset, v). (fs + sample_offset, 0, v)) df
         \<and> (\<forall>i. i < length df \<longrightarrow>
               compute_events_matrix fs df ! i = (fs + fst (df ! i), 0, snd (df ! i))))"
proof (intro conjI allI impI)
  show "length (compute_events_matrix fs df) = length df"
    by (rule length_compute_events_matrix)
next
  fix i assume "i < length df"
  then show "compute_events_matrix fs df ! i = (int64 (fs + fst (df ! i)), 0, snd (df ! i))"
    by (simp add: compute_events_matrix_map)
next
  assume "\<forall>r\<in>set df. in_int64 (fs + fst r)"
  then show "compute_events_matrix fs df
           = map (\<lambda>(sample_offset, v). (fs + sample_offset, 0, v)) df"
    by (rule compute_events_matrix_exact)
next
  fix i assume r: "\<forall>r\<in>set df. in_int64 (fs + fst r)" and i: "i < length df"
  from i have "df ! i \<in> set df" by simp
  with r have "int64 (fs + fst (df ! i)) = fs + fst (df ! i)"
    by (simp add: int64_in_range)
  with i show "compute_events_matrix fs df ! i = (fs + fst (df ! i), 0, snd (df ! i))"
    by (simp add: compute_events_matrix_map)
qed

theorem ingest_triplets_int64_witness:
  "in_int64 100 \<and> in_int64 10 \<and> in_int64 1 \<and> in_int64 50 \<and> in_int64 2
   \<and> in_int64 (100 + 10) \<and> in_int64 (100 + 50)
   \<and> compute_events_matrix 100 [(10, 1), (50, 2)] = [(110, 0, 1), (150, 0, 2)]
   \<and> compute_events_matrix 100 [(10, 1), (50, 2)] ! 1 = (150, 0, 2)"
proof -
  have h1: "in_int64 100" by (simp add: in_int64_def)
  have h2: "\<forall>r\<in>set [(10::int, 1::int), (50, 2)]. in_int64 (fst r) \<and> in_int64 (snd r)"
    by (simp add: in_int64_def)
  have h3: "\<forall>r\<in>set [(10::int, 1::int), (50, 2)]. in_int64 (100 + fst r)"
    by (simp add: in_int64_def)
  from ingest_triplets_int64 [OF h1 h2] h3
  have "compute_events_matrix 100 [(10, 1), (50, 2)]
          = map (\<lambda>(sample_offset, v). (100 + sample_offset, 0, v)) [(10, 1), (50, 2)]"
    by blast
  then have "compute_events_matrix 100 [(10, 1), (50, 2)] = [(110, 0, 1), (150, 0, 2)]"
    by simp
  then show ?thesis by (simp add: in_int64_def)
qed

section \<open>Steps\<close>

lemma and_then_from_lib:
  "and_then (from_lib r) f w = (case r of Inl e \<Rightarrow> (Inl e, w) | Inr a \<Rightarrow> f a w)"
  by (simp add: and_then_def from_lib_def split: sum.splits)

lemma and_then_returns: "and_then (returns a) f w = f a w"
  by (simp add: and_then_def returns_def)

lemma and_then_raises: "and_then (raises e) f w = (Inl e, w)"
  by (simp add: and_then_def raises_def)

lemma call_resample_epochs:
  "call_resample l data (EpochsKwargs sf np wi nj pd) w =
     (fst (resample l data (EpochsKwargs sf np wi nj pd)),
      w\<lparr>trace := trace w @ [ResampleCall data (EpochsKwargs sf np wi nj pd)]\<rparr>)"
  by (simp add: call_resample_def Let_def split: prod.splits)

lemma call_resample_raw_None:
  "call_resample l data (RawKwargs sf np wi st nj None pd) w =
     (fst (resample l data (RawKwargs sf np wi st nj None pd)),
      w\<lparr>trace := trace w @ [ResampleCall data (RawKwargs sf np wi st nj None pd)]\<rparr>)"
  by (simp add: call_resample_def Let_def split: prod.splits)

lemma call_resample_raw_Some:
  "call_resample l data (RawKwargs sf np wi st nj (Some ev) pd) w =
     (fst (resample l data (RawKwargs sf np wi st nj (Some ev) pd)),
      w\<lparr>trace := trace w @ [ResampleCall data (RawKwargs sf np wi st nj (Some ev) pd)],
        caller_events := snd (resample l data (RawKwargs sf np wi st nj (Some ev) pd))\<rparr>)"
  by (simp add: call_resample_def Let_def split: prod.splits)

lemma save_resampled_eq:
  "save_resampled l r ev w =
     (case r of
        Instance d \<Rightarrow>
          (case save l d ''out_dir_resampling/meg.fif'' of
             Inl e \<Rightarrow> (Inl e, w)
           | Inr u \<Rightarrow> (Inr (d, ev),
                       w\<lparr>trace := trace w @ [SaveFif d ''out_dir_resampling/meg.fif'']\<rparr>))
      | WithEvents d x \<Rightarrow> (Inl (AttributeError ''tuple object has no attribute save''), w))"
  by (simp add: save_resampled_def and_then_def performs_def returns_def raises_def
      split: resample_result.splits sum.splits)

lemma resampling_epoched_eq:
  assumes "\<not> is_False ep"
  shows "resampling l data ev ep sf np wi st nj rp epd sv w =
     (case fst (resample l data (EpochsKwargs sf np wi nj epd)) of
        Inl e \<Rightarrow> (Inl e, w\<lparr>trace := trace w @ [ResampleCall data (EpochsKwargs sf np wi nj epd)]\<rparr>)
      | Inr r \<Rightarrow> save_resampled l r None
           (w\<lparr>trace := trace w @ [ResampleCall data (EpochsKwargs sf np wi nj epd)]\<rparr>))"
  using assms
  by (simp add: resampling_def and_then_def returns_def
      call_resample_epochs split: sum.splits)

lemma resampling_omitted_eq:
  assumes "is_False ep" and "ev = None \<or> \<not> is_True sv"
  shows "resampling l data ev ep sf np wi st nj rp epd sv w =
     (case load_data l data of
        Inl e \<Rightarrow> (Inl e, w)
      | Inr d1 \<Rightarrow>
         (case fst (resample l d1 (RawKwargs sf np wi st nj None rp)) of
            Inl e \<Rightarrow> (Inl e, w\<lparr>trace := trace w @ [ResampleCall d1 (RawKwargs sf np wi st nj None rp)]\<rparr>)
          | Inr r \<Rightarrow> save_resampled l r None
               (w\<lparr>trace := trace w @ [ResampleCall d1 (RawKwargs sf np wi st nj None rp)]\<rparr>)))"
  using assms
  by (auto simp add: resampling_def and_then_def returns_def from_lib_def
      call_resample_raw_None split: sum.splits)

lemma resampling_joint_eq:
  assumes "is_False ep" and "is_True sv"
  shows "resampling l data (Some m) ep sf np wi st nj rp epd sv w =
     (case load_data l data of
        Inl e \<Rightarrow> (Inl e, w)
      | Inr d1 \<Rightarrow>
         (case fst (resample l d1 (RawKwargs sf np wi st nj (Some m) rp)) of
               Inl e \<Rightarrow> (Inl e, w\<lparr>trace := trace w @ [ResampleCall d1 (RawKwargs sf np wi st nj (Some m) rp)],
                     caller_events := snd (resample l d1 (RawKwargs sf np wi st nj (Some m) rp))\<rparr>)
             | Inr (Instance d) \<Rightarrow> (Inl (TypeError ''cannot unpack non-iterable object''), w\<lparr>trace := trace w @ [ResampleCall d1 (RawKwargs sf np wi st nj (Some m) rp)],
                     caller_events := snd (resample l d1 (RawKwargs sf np wi st nj (Some m) rp))\<rparr>)
             | Inr (WithEvents d2 ev2) \<Rightarrow> save_resampled l (Instance d2) (Some ev2) (w\<lparr>trace := trace w @ [ResampleCall d1 (RawKwargs sf np wi st nj (Some m) rp)],
                     caller_events := snd (resample l d1 (RawKwargs sf np wi st nj (Some m) rp))\<rparr>)))"
  using assms
  by (auto simp add: resampling_def and_then_def returns_def raises_def from_lib_def
      call_resample_raw_Some split: sum.splits resample_result.splits)

section \<open>The three branches of \<^verbatim>\<open>resampling\<close>\<close>

text \<open>
  Claim C7. On epoched data (\<^verbatim>\<open>param_epoched_data\<close> is \<^verbatim>\<open>True\<close>) \<^verbatim>\<open>resampling\<close> returns
  exactly when the library resamples the epochs with the keyword arguments of line 81,
  whose padding mode is \<^verbatim>\<open>param_epoch_pad\<close>, and saves the result; the events it
  returns are then \<^verbatim>\<open>None\<close>. Neither the events matrix it was given nor the flag that
  asks for joint resampling has any part in it.
\<close>

theorem epoched_resampling_returns_no_events:
  "resampling l data events_matrix (PyBool True) sf np wi st nj rp epd sv w = (Inr (d', ev'), w')
   \<longleftrightarrow> ev' = None
       \<and> fst (resample l data (EpochsKwargs sf np wi nj epd)) = Inr (Instance d')
       \<and> save l d' ''out_dir_resampling/meg.fif'' = Inr ()
       \<and> w' = w\<lparr>trace := trace w @ [ResampleCall data (EpochsKwargs sf np wi nj epd),
                                      SaveFif d' ''out_dir_resampling/meg.fif'']\<rparr>"
  by (auto simp add: resampling_epoched_eq is_False_def save_resampled_eq
      split: sum.splits resample_result.splits)

theorem epoched_resampling_returns_no_events_witness:
  "resampling example_lib (Recording (PyInt 1000) 0) (Some [(10, 0, 1)]) (PyBool True)
     (PyInt 500) (PyStr ''auto'') (PyStr ''boxcar'') PyNone (PyInt 1)
     (PyStr ''reflect_limited'') (PyStr ''edge'') (PyBool True) start
   = (Inr (Recording (PyInt 500) 0, None),
      start\<lparr>trace := trace start @
         [ResampleCall (Recording (PyInt 1000) 0)
            (EpochsKwargs (PyInt 500) (PyStr ''auto'') (PyStr ''boxcar'') (PyInt 1) (PyStr ''edge'')),
          SaveFif (Recording (PyInt 500) 0) ''out_dir_resampling/meg.fif'']\<rparr>)"
  using epoched_resampling_returns_no_events
    [of example_lib "Recording (PyInt 1000) 0" "Some [(10, 0, 1)]"
        "PyInt 500" "PyStr ''auto''" "PyStr ''boxcar''" PyNone "PyInt 1"
        "PyStr ''reflect_limited''" "PyStr ''edge''" "PyBool True" start
        "Recording (PyInt 500) 0" None]
  by (simp add: example_lib_def)

text \<open>
  Claim C8. On continuous data with \<^verbatim>\<open>param_save_jointly_resampled_events\<close> \<^verbatim>\<open>False\<close>,
  \<^verbatim>\<open>resampling\<close> returns exactly when the library loads the data, resamples it with
  \<^verbatim>\<open>events=None\<close> and saves it; the events it returns are then \<^verbatim>\<open>None\<close>. Whatever the
  outcome, the array behind the caller's events matrix holds what it held before.
\<close>

theorem continuous_not_requested_returns_no_events:
  "(resampling l data events_matrix (PyBool False) sf np wi st nj rp epd (PyBool False) w
      = (Inr (d', ev'), w')
    \<longleftrightarrow> ev' = None
        \<and> (\<exists>d1. load_data l data = Inr d1
              \<and> fst (resample l d1 (RawKwargs sf np wi st nj None rp)) = Inr (Instance d')
              \<and> w' = w\<lparr>trace := trace w @ [ResampleCall d1 (RawKwargs sf np wi st nj None rp),
                                             SaveFif d' ''out_dir_resampling/meg.fif'']\<rparr>)
        \<and> save l d' ''out_dir_resampling/meg.fif'' = Inr ())
   \<and> caller_events
        (snd (resampling l data events_matrix (PyBool False) sf np wi st nj rp epd (PyBool False) w))
       = caller_events w"
  by (auto simp add: resampling_omitted_eq is_False_def is_True_def save_resampled_eq
      split: sum.splits resample_result.splits)

theorem continuous_not_requested_returns_no_events_witness:
  "resampling example_lib (Recording (PyInt 1000) 0) (Some [(10, 0, 1)]) (PyBool False)
     (PyInt 500) (PyStr ''auto'') (PyStr ''boxcar'') PyNone (PyInt 1)
     (PyStr ''reflect_limited'') (PyStr ''edge'') (PyBool False)
     (start\<lparr>caller_events := Some [(10, 0, 1)]\<rparr>)
   = (Inr (Recording (PyInt 500) 0, None),
      start\<lparr>caller_events := Some [(10, 0, 1)],
         trace := 
         [ResampleCall (Recording (PyInt 1000) 0)
            (RawKwargs (PyInt 500) (PyStr ''auto'') (PyStr ''boxcar'') PyNone (PyInt 1) None
               (PyStr ''reflect_limited'')),
          SaveFif (Recording (PyInt 500) 0) ''out_dir_resampling/meg.fif'']\<rparr>)"
  using continuous_not_requested_returns_no_events
    [of example_lib "Recording (PyInt 1000) 0" "Some [(10, 0, 1)]"
        "PyInt 500" "PyStr ''auto''" "PyStr ''boxcar''" PyNone "PyInt 1"
        "PyStr ''reflect_limited''" "PyStr ''edge''" "start\<lparr>caller_events := Some [(10, 0, 1)]\<rparr>"
        "Recording (PyInt 500) 0" None]
  by (simp add: example_lib_def start_def)

text \<open>
  Claim C10. \<^verbatim>\<open>resampling\<close> has no test of its own for joint resampling asked for
  without events: on continuous data with \<^verbatim>\<open>events_matrix\<close> \<^verbatim>\<open>None\<close> and the flag
  \<^verbatim>\<open>True\<close> it returns whenever the library loads the data, resamples it with
  \<^verbatim>\<open>events=None\<close> and saves it, and the events it returns are \<^verbatim>\<open>None\<close>.
\<close>

theorem resampling_has_no_guard:
  "resampling l data None (PyBool False) sf np wi st nj rp epd (PyBool True) w
      = (Inr (d', ev'), w')
    \<longleftrightarrow> ev' = None
        \<and> (\<exists>d1. load_data l data = Inr d1
              \<and> fst (resample l d1 (RawKwargs sf np wi st nj None rp)) = Inr (Instance d')
              \<and> w' = w\<lparr>trace := trace w @ [ResampleCall d1 (RawKwargs sf np wi st nj None rp),
                                             SaveFif d' ''out_dir_resampling/meg.fif'']\<rparr>)
        \<and> save l d' ''out_dir_resampling/meg.fif'' = Inr ()"
  by (auto simp add: resampling_omitted_eq is_False_def is_True_def save_resampled_eq
      split: sum.splits resample_result.splits)

theorem resampling_has_no_guard_witness:
  "resampling example_lib (Recording (PyInt 1000) 0) None (PyBool False)
     (PyInt 500) (PyStr ''auto'') (PyStr ''boxcar'') PyNone (PyInt 1)
     (PyStr ''reflect_limited'') (PyStr ''edge'') (PyBool True) start
   = (Inr (Recording (PyInt 500) 0, None),
      start\<lparr>trace := trace start @
         [ResampleCall (Recording (PyInt 1000) 0)
            (RawKwargs (PyInt 500) (PyStr ''auto'') (PyStr ''boxcar'') PyNone (PyInt 1) None
               (PyStr ''reflect_limited'')),
          SaveFif (Recording (PyInt 500) 0) ''out_dir_resampling/meg.fif'']\<rparr>)"
  using resampling_has_no_guard
    [of example_lib "Recording (PyInt 1000) 0"
        "PyInt 500" "PyStr ''auto''" "PyStr ''boxcar''" PyNone "PyInt 1"
        "PyStr ''reflect_limited''" "PyStr ''edge''" start
        "Recording (PyInt 500) 0" None]
  by (simp add: example_lib_def)

section \<open>Trial types\<close>

declare str_nat.simps [simp del]

lemma digit_char_inj: "a < 10 \<Longrightarrow> b < 10 \<Longrightarrow> digit_char a = digit_char b \<Longrightarrow> a = b"
proof -
  assume a: "a < 10" and b: "b < 10" and e: "digit_char a = digit_char b"
  have "distinct ''0123456789''" by simp
  moreover from a have "a < length ''0123456789''" by simp
  moreover from b have "b < length ''0123456789''" by simp
  ultimately have "(''0123456789'' ! a = ''0123456789'' ! b) = (a = b)"
    by (rule nth_eq_iff_index_eq)
  with e show "a = b" by (simp only: digit_char_def)
qed

lemma str_nat_not_Nil: "str_nat n \<noteq> []"
  by (subst str_nat.simps) simp

lemma str_nat_inj: "str_nat n = str_nat m \<Longrightarrow> n = m"
proof (induction n arbitrary: m rule: str_nat.induct)
  case (1 n)
  show ?case
  proof (cases "n < 10")
    case n: True
    show ?thesis
    proof (cases "m < 10")
      case True
      with n "1.prems" show ?thesis
        by (simp add: str_nat.simps [of n] str_nat.simps [of m] digit_char_inj)
    next
      case False
      with n "1.prems" str_nat_not_Nil [of "m div 10"] show ?thesis
        by (simp add: str_nat.simps [of n] str_nat.simps [of m] append_eq_Cons_conv)
    qed
  next
    case n: False
    show ?thesis
    proof (cases "m < 10")
      case True
      with n "1.prems" str_nat_not_Nil [of "n div 10"] show ?thesis
        by (simp add: str_nat.simps [of n] str_nat.simps [of m] Cons_eq_append_conv)
    next
      case False
      with n "1.prems" have e: "str_nat (n div 10) = str_nat (m div 10)"
        and d: "digit_char (n mod 10) = digit_char (m mod 10)"
        by (simp_all add: str_nat.simps [of n] str_nat.simps [of m])
      from "1.IH" [OF n e] have "n div 10 = m div 10" .
      moreover from d have "n mod 10 = m mod 10" by (simp add: digit_char_inj)
      ultimately show ?thesis by (metis div_mult_mod_eq)
    qed
  qed
qed

lemma event_label_inj: "inj event_label"
  by (rule injI) (simp add: event_label_def str_nat_inj)


lemma keys_fold_update:
  "map fst (fold (\<lambda>x c. AList.update x (g c x) c) xs c) = scan_keys xs (map fst c)"
  by (induction xs arbitrary: c) (simp_all add: update_keys)

lemma keys_Counter: "map fst (Counter xs) = scan_keys xs []"
  using keys_fold_update [of "\<lambda>c x. case map_of c x of None \<Rightarrow> 1 | Some n \<Rightarrow> n + 1" xs "[]"]
  by (simp add: Counter_def)

lemma update_fresh: "k \<notin> fst ` set d \<Longrightarrow> AList.update k v d = d @ [(k, v)]"
  by (induction d) auto

lemma fold_update_fresh:
  "distinct (map fst ps) \<Longrightarrow> fst ` set ps \<inter> fst ` set d = {} \<Longrightarrow>
     fold (\<lambda>(k, v) d. AList.update k v d) ps d = d @ ps"
proof (induction ps arbitrary: d)
  case Nil
  then show ?case by simp
next
  case (Cons p ps)
  obtain k v where p: "p = (k, v)" by (cases p)
  from Cons.prems p have fresh: "k \<notin> fst ` set d" by auto
  from Cons.prems p have "distinct (map fst ps)" and "fst ` set ps \<inter> fst ` set (d @ [(k, v)]) = {}"
    by auto
  from Cons.IH [OF this] show ?case
    by (simp add: p update_fresh [OF fresh])
qed

lemma dict_of_pairs_distinct: "distinct (map fst ps) \<Longrightarrow> dict_of_pairs ps = ps"
  using fold_update_fresh [of ps "[]"] by (simp add: dict_of_pairs_def)

lemma labels_shift: "map event_label [1 ..< n + 1] = map (\<lambda>i. event_label (Suc i)) [0 ..< n]"
proof -
  have "[1 ..< n + 1] = map Suc [0 ..< n]"
    by (simp add: map_Suc_upt del: upt_Suc)
  then show ?thesis by (simp add: comp_def del: upt_Suc)
qed

lemma distinct_labels: "distinct (map event_label [1 ..< n + 1])"
proof -
  have "inj_on (\<lambda>i. event_label (Suc i)) (set [0 ..< n])"
    by (rule inj_onI) (auto simp: event_label_def dest: str_nat_inj)
  then show ?thesis
    unfolding labels_shift by (simp add: distinct_map)
qed

lemma labelled_snoc: "labelled (ks @ [v]) = labelled ks @ [(v, event_label (length ks + 1))]"
  unfolding labelled_def labels_shift by simp

lemma keys_labelled: "map fst (labelled ks) = ks"
  unfolding labelled_def labels_shift by simp

lemma length_labelled: "length (labelled ks) = length ks"
  unfolding labelled_def labels_shift by simp

lemma scan_labels_labelled: "scan_labels vs (labelled ks) = labelled (scan_keys vs ks)"
proof (induction vs arbitrary: ks)
  case Nil
  then show ?case by simp
next
  case (Cons v vs)
  show ?case
  proof (cases "v \<in> set ks")
    case True
    then show ?thesis by (simp add: keys_labelled Cons.IH)
  next
    case False
    then have "scan_labels (v # vs) (labelled ks) = scan_labels vs (labelled (ks @ [v]))"
      by (simp add: keys_labelled length_labelled labelled_snoc)
    with False show ?thesis by (simp add: Cons.IH)
  qed
qed

lemma first_seen_labels_eq: "first_seen_labels vs = labelled (scan_keys vs [])"
  using scan_labels_labelled [of vs "[]"] by (simp add: first_seen_labels_def labelled_def)

lemma trial_type_map_eq:
  "trial_type_map events =
     zip (map event_label [1 ..< length (scan_keys (map (\<lambda>(s, z, v). v) events) []) + 1])
         (scan_keys (map (\<lambda>(s, z, v). v) events) [])"
proof -
  let ?ks = "scan_keys (map (\<lambda>(s, z, v). v) events) []"
  have "map fst (zip (map event_label [1 ..< length ?ks + 1]) ?ks) = map event_label [1 ..< length ?ks + 1]"
    unfolding labels_shift by simp
  then have "distinct (map fst (zip (map event_label [1 ..< length ?ks + 1]) ?ks))"
    using distinct_labels [of "length ?ks"] by simp
  from dict_of_pairs_distinct [OF this]
  have "dict_of_pairs (zip (map event_label [1 ..< length ?ks + 1]) ?ks)
          = zip (map event_label [1 ..< length ?ks + 1]) ?ks" .
  moreover have "trial_type_map events = dict_of_pairs (zip (map event_label [1 ..< length ?ks + 1]) ?ks)"
    unfolding trial_type_map_def Let_def keys_Counter ..
  ultimately show ?thesis by simp
qed

lemma swap_zip: "map (\<lambda>(a, b). (b, a)) (zip xs ys) = zip ys xs"
  by (induction xs arbitrary: ys) (auto simp: zip_Cons1 split: list.splits) 


text \<open>
  Claim C3. The trial types built from the resampled events are the labels
  \<^verbatim>\<open>events_1\<close>, \<^verbatim>\<open>events_2\<close>, ... given to the distinct values of the third column in the
  order in which a scan of the column first meets them, whatever their size. The
  dictionary of the program is keyed by the label; read from value to label it is the
  assignment of the specification, and for the values 7, 3, 7, 9 it gives 7 the label
  \<^verbatim>\<open>events_1\<close>, 3 \<^verbatim>\<open>events_2\<close> and 9 \<^verbatim>\<open>events_3\<close>.
\<close>

theorem trial_types_first_seen:
  "map (\<lambda>(name, v). (v, name)) (trial_type_map events)
     = first_seen_labels (map (\<lambda>(s, z, v). v) events)
   \<and> trial_type_map [(a, 0, 7), (b, 0, 3), (c, 0, 7), (d, 0, 9)]
     = [(''events_1'', 7), (''events_2'', 3), (''events_3'', 9)]
   \<and> first_seen_labels [7, 3, 7, 9]
     = [(7, ''events_1''), (3, ''events_2''), (9, ''events_3'')]"
proof (intro conjI)
  show "map (\<lambda>(name, v). (v, name)) (trial_type_map events)
     = first_seen_labels (map (\<lambda>(s, z, v). v) events)"
    unfolding trial_type_map_eq first_seen_labels_eq labelled_def swap_zip ..
  have upt: "[1 ..< 3 + 1] = [1, 2, 3::nat]" by (simp add: upt_rec)
  then show "trial_type_map [(a, 0, 7), (b, 0, 3), (c, 0, 7), (d, 0, 9)]
     = [(''events_1'', 7), (''events_2'', 3), (''events_3'', 9)]"
    by (simp add: trial_type_map_eq event_label_def str_nat.simps digit_char_def)
  from upt show "first_seen_labels [7, 3, 7, 9]
     = [(7, ''events_1''), (3, ''events_2''), (9, ''events_3'')]"
    by (simp add: first_seen_labels_eq labelled_def event_label_def str_nat.simps digit_char_def)
qed

theorem trial_types_first_seen_witness:
  "map (\<lambda>(name, v). (v, name)) (trial_type_map [(5, 0, 2), (25, 0, 1), (40, 0, 2)])
     = [(2, ''events_1''), (1, ''events_2'')]"
proof -
  have "first_seen_labels [2, 1, 2] = [(2, ''events_1''), (1, ''events_2'')]"
    by (simp add: first_seen_labels_def event_label_def str_nat.simps digit_char_def)
  with trial_types_first_seen [of "[(5, 0, 2), (25, 0, 1), (40, 0, 2)]"]
  show ?thesis by simp
qed

section \<open>The test for a missing events file\<close>

lemma read_inputs_cases:
  assumes "read_inputs l config w = (r, w1)"
  shows "w1 = w \<or> w1 = w\<lparr>trace := trace w @ [Warn channels_warning]\<rparr>
         \<or> (\<exists>m. w1 = w\<lparr>trace := trace w @ [Warn channels_warning, Warn (Text m)]\<rparr>)"
  using assms
  unfolding read_inputs_def
  by (auto simp add: and_then_def from_lib_def logs_def returns_def
      split: sum.splits option.splits prod.splits)

lemma read_inputs_world:
  assumes "read_inputs l config w = (r, w1)"
  shows "(\<exists>ms. trace w1 = trace w @ map Warn ms) \<and> caller_events w1 = caller_events w"
proof -
  from read_inputs_cases [OF assms]
  consider "w1 = w" | "w1 = w\<lparr>trace := trace w @ [Warn channels_warning]\<rparr>"
    | m where "w1 = w\<lparr>trace := trace w @ [Warn channels_warning, Warn (Text m)]\<rparr>"
    by blast
  then show ?thesis
  proof cases
    case 1
    then have "trace w1 = trace w @ map Warn []" by simp
    with 1 show ?thesis by blast
  next
    case 2
    then have "trace w1 = trace w @ map Warn [channels_warning]" by simp
    moreover from 2 have "caller_events w1 = caller_events w" by simp
    ultimately show ?thesis by blast
  next
    case 3
    then have "trace w1 = trace w @ map Warn [channels_warning, Text m]" by simp
    moreover from 3 have "caller_events w1 = caller_events w" by simp
    ultimately show ?thesis by blast
  qed
qed

lemma extract_events_no_file:
  assumes "map_of config ''param_epoched_data'' = Some ep"
  shows "extract_events l config data None dict_json_product w
           = (Inr (None, dict_json_product), w\<lparr>caller_events := None\<rparr>)"
  using assms
  by (simp add: extract_events_def and_then_def from_lib_def getitem_def binds_events_def
      returns_def)

lemma check_events_file_raises:
  assumes "map_of config ''param_epoched_data'' = Some ep"
    and "map_of config ''param_sfreq'' = Some sfreq"
    and "map_of config ''param_save_jointly_resampled_events'' = Some (PyBool True)"
  shows "check_events_file config None dict_json_product w
           = (Inl (ValueError value_error_message), w)"
  using assms
  by (simp add: check_events_file_def and_then_def from_lib_def getitem_def is_True_def
      returns_def raises_def)

lemma main_stops_without_events_file:
  assumes "read_inputs l config w = (Inr (config', data, None, dict_json_product), w1)"
    and "map_of config' ''param_epoched_data'' = Some ep"
    and "map_of config' ''param_sfreq'' = Some sfreq"
    and "map_of config' ''param_save_jointly_resampled_events'' = Some (PyBool True)"
  shows "main l config w = (Inl (ValueError value_error_message), w1\<lparr>caller_events := None\<rparr>)"
proof -
  have "main l config w =
          and_then (extract_events l config' data None dict_json_product)
            (\<lambda>(events_matrix, dict_json_product).
               and_then (check_events_file config' None dict_json_product) (\<lambda>dict_json_product.
               and_then (convert_parameters l config') (\<lambda>config.
               and_then (apply_resampling l config data events_matrix)
                 (\<lambda>(config, data, data_resampled, events_resampled).
               and_then (write_events l config data events_resampled dict_json_product)
                 (\<lambda>dict_json_product. write_product l dict_json_product))))) w1"
    by (simp add: main_def and_then_def [of "read_inputs l config"] assms(1))
  also have "\<dots> = and_then (check_events_file config' None dict_json_product) (\<lambda>dict_json_product.
               and_then (convert_parameters l config') (\<lambda>config.
               and_then (apply_resampling l config data None)
                 (\<lambda>(config, data, data_resampled, events_resampled).
               and_then (write_events l config data events_resampled dict_json_product)
                 (\<lambda>dict_json_product. write_product l dict_json_product))))
               (w1\<lparr>caller_events := None\<rparr>)"
    by (simp add: and_then_def [of "extract_events l config' data None dict_json_product"]
        extract_events_no_file [OF assms(2)])
  also have "\<dots> = (Inl (ValueError value_error_message), w1\<lparr>caller_events := None\<rparr>)"
    by (simp add: and_then_def [of "check_events_file config' None dict_json_product"]
        check_events_file_raises [OF assms(2) assms(3) assms(4)])
  finally show ?thesis .
qed

lemma example_inputs:
  "read_inputs example_lib (example_config ep sv []) start
     = (Inr (AList.delete ''fif'' (example_config ep sv []),
             Recording (PyInt 1000) 0, None, []), start)"
  by (simp add: read_inputs_def example_config_def example_lib_def and_then_def from_lib_def
      pop_def getitem_def returns_def)

text \<open>
  Claim C1. A run that has its configuration, its recording (continuous or epoched) and
  no events file, and whose \<^verbatim>\<open>param_save_jointly_resampled_events\<close> is \<^verbatim>\<open>True\<close>, ends
  with the \<^verbatim>\<open>ValueError\<close> of line 177. All it has done by then is to issue warnings:
  no call of \<^verbatim>\<open>resample\<close> and no write is on the trace.
\<close>

theorem main_rejects_missing_events_file:
  assumes "read_inputs l config w = (Inr (config', data, None, dict_json_product), w1)"
    and "map_of config' ''param_epoched_data'' = Some (PyBool epoched)"
    and "map_of config' ''param_sfreq'' = Some sfreq"
    and "map_of config' ''param_save_jointly_resampled_events'' = Some (PyBool True)"
  shows "fst (main l config w) = Inl (ValueError value_error_message)
         \<and> (\<exists>ms. trace (snd (main l config w)) = trace w @ map Warn ms)"
proof -
  from main_stops_without_events_file [OF assms]
  have m: "main l config w = (Inl (ValueError value_error_message), w1\<lparr>caller_events := None\<rparr>)" .
  from read_inputs_world [OF assms(1)] obtain ms where "trace w1 = trace w @ map Warn ms"
    by blast
  with m show ?thesis by auto
qed

theorem main_rejects_missing_events_file_witness:
  "read_inputs example_lib (example_config (PyBool False) (PyBool True) []) start
     = (Inr (AList.delete ''fif'' (example_config (PyBool False) (PyBool True) []),
             Recording (PyInt 1000) 0, None, []), start)
   \<and> fst (main example_lib (example_config (PyBool False) (PyBool True) []) start)
     = Inl (ValueError value_error_message)
   \<and> (\<exists>ms. trace (snd (main example_lib (example_config (PyBool False) (PyBool True) []) start))
          = trace start @ map Warn ms)"
proof -
  let ?config = "AList.delete ''fif'' (example_config (PyBool False) (PyBool True) [])"
  have inputs: "read_inputs example_lib (example_config (PyBool False) (PyBool True) []) start
     = (Inr (?config, Recording (PyInt 1000) 0, None, []), start)"
    by (rule example_inputs)
  have "map_of ?config ''param_epoched_data'' = Some (PyBool False)"
    and "map_of ?config ''param_sfreq'' = Some (PyInt 500)"
    and "map_of ?config ''param_save_jointly_resampled_events'' = Some (PyBool True)"
    by (simp_all add: example_config_def)
  from main_rejects_missing_events_file [OF inputs this] inputs
  show ?thesis by blast
qed

text \<open>
  Claim C9. The same holds when the data is epoched: with \<^verbatim>\<open>param_epoched_data\<close>
  \<^verbatim>\<open>True\<close>, the flag \<^verbatim>\<open>True\<close> and no events file the run ends with the \<^verbatim>\<open>ValueError\<close>
  before anything is resampled, although \<^verbatim>\<open>resampling\<close> would never hand events to the
  library for epochs.
\<close>

theorem epoched_run_stops_without_events_file:
  assumes "read_inputs l config w = (Inr (config', data, None, dict_json_product), w1)"
    and "map_of config' ''param_epoched_data'' = Some (PyBool True)"
    and "map_of config' ''param_sfreq'' = Some sfreq"
    and "map_of config' ''param_save_jointly_resampled_events'' = Some (PyBool True)"
  shows "fst (main l config w) = Inl (ValueError value_error_message)
         \<and> (\<exists>ms. trace (snd (main l config w)) = trace w @ map Warn ms)"
proof -
  from main_stops_without_events_file [OF assms]
  have m: "main l config w = (Inl (ValueError value_error_message), w1\<lparr>caller_events := None\<rparr>)" .
  from read_inputs_world [OF assms(1)] obtain ms where "trace w1 = trace w @ map Warn ms"
    by blast
  with m show ?thesis by auto
qed

theorem epoched_run_stops_without_events_file_witness:
  "read_inputs example_lib (example_config (PyBool True) (PyBool True) []) start
     = (Inr (AList.delete ''fif'' (example_config (PyBool True) (PyBool True) []),
             Recording (PyInt 1000) 0, None, []), start)
   \<and> fst (main example_lib (example_config (PyBool True) (PyBool True) []) start)
     = Inl (ValueError value_error_message)
   \<and> (\<exists>ms. trace (snd (main example_lib (example_config (PyBool True) (PyBool True) []) start))
          = trace start @ map Warn ms)"
proof -
  let ?config = "AList.delete ''fif'' (example_config (PyBool True) (PyBool True) [])"
  have inputs: "read_inputs example_lib (example_config (PyBool True) (PyBool True) []) start
     = (Inr (?config, Recording (PyInt 1000) 0, None, []), start)"
    by (rule example_inputs)
  have "map_of ?config ''param_epoched_data'' = Some (PyBool True)"
    and "map_of ?config ''param_sfreq'' = Some (PyInt 500)"
    and "map_of ?config ''param_save_jointly_resampled_events'' = Some (PyBool True)"
    by (simp_all add: example_config_def)
  from epoched_run_stops_without_events_file [OF inputs this] inputs
  show ?thesis by blast
qed

section \<open>Writing the events\<close>

lemma trial_type_map_Nil: "trial_type_map [] = []"
  by (simp add: trial_type_map_def Counter_def dict_of_pairs_def)

text \<open>
  An events array without rows is not looked at by \<^verbatim>\<open>main\<close>: it goes to
  \<^verbatim>\<open>write_raw_bids\<close> with an empty dictionary of trial types, and what becomes of the run
  is up to that call and to \<^verbatim>\<open>shutil.copy2\<close>.
\<close>

lemma write_events_empty:
  assumes "map_of config ''param_epoched_data'' = Some (PyBool False)"
  shows "write_events l config data (Some []) dict_json_product w =
     and_then (performs (write_raw_bids l data bids_path [] []) (WriteRawBids data bids_path [] []))
       (\<lambda>u. and_then
          (performs (copy2 l bids_events_file ''out_dir_resampling/events.tsv'')
             (Copy2 bids_events_file ''out_dir_resampling/events.tsv''))
          (\<lambda>u. returns (dict_json_product
             @ [(''info'', Text ''Jointly resampled events are saved in events.tsv.'')]))) w"
  using assms
  by (simp add: write_events_def and_then_from_lib getitem_def is_False_def trial_type_map_Nil)

text \<open>
  Claim C5 as it is stated does not hold of the program: nothing in \<^verbatim>\<open>main\<close> raises an
  error at the point where the events would be written. The run below is on epoched
  data, has an events file and asks for the jointly resampled events; no rescaling is
  done, and the run ends without an error and without a call of \<^verbatim>\<open>write_raw_bids\<close>.
\<close>

theorem emit_skipped_counterexample:
  "main example_lib
     (example_config (PyBool True) (PyBool True) [(''events'', PyStr ''events.tsv'')]) start
   = (Inr (),
      \<lparr>trace =
         [ResampleCall (Recording (PyInt 1000) 0)
            (EpochsKwargs (PyInt 500) (PyStr ''auto'') (PyStr ''boxcar'') (PyInt 1)
               (PyStr ''edge'')),
          SaveFif (Recording (PyInt 500) 0) ''out_dir_resampling/meg.fif'',
          JsonDump ''product.json''
            [(''success'', Text ''Data was successfully resampled.'')]],
       caller_events = None\<rparr>)"
  by code_simp

text \<open>
  Claim C5, as the program has it. When \<^verbatim>\<open>resampling\<close> returned no events, or the data
  is not continuous, the paragraph that writes the events is skipped: no call is made,
  nothing is written, no error is raised and the messages are as they were.
\<close>

theorem emit_skipped_without_events:
  "write_events l config data None dict_json_product w = (Inr dict_json_product, w)
   \<and> (map_of config ''param_epoched_data'' = Some epoched \<longrightarrow> \<not> is_False epoched \<longrightarrow>
        write_events l config data (Some events) dict_json_product w
          = (Inr dict_json_product, w))"
  by (simp add: write_events_def returns_def and_then_from_lib getitem_def)

theorem emit_skipped_without_events_witness:
  "write_events example_lib [(''param_epoched_data'', PyBool True)] (Recording (PyInt 500) 0)
     (Some [(5, 0, 1)]) [] start = (Inr [], start)"
  using emit_skipped_without_events
    [of example_lib "[(''param_epoched_data'', PyBool True)]" "Recording (PyInt 500) 0" "[]"
        start "PyBool True" "[(5, 0, 1)]"]
  by (simp add: is_False_def)

end
